theory Spec2Isabelle
  imports Main "HOL-Library.Word" "HOL-Library.AList"
begin

section \<open>HabitCards API backend (backend/main.py)\<close>

text \<open>
  A shallow embedding of the Flask application in \<^verbatim>\<open>backend/main.py\<close>: the key-value
  storage helpers, the API-key check, the prompt builder, the provider selection and the
  generated CRUD views. Python exceptions are values of the type \<open>exn\<close>; a function that
  may raise returns \<open>exn + 'a\<close> with \<open>Inl\<close> for the exception. The module-level store
  \<^verbatim>\<open>replit_db\<close> is passed in and returned explicitly.
\<close>

subsection \<open>JSON values\<close>

text \<open>
  What \<^verbatim>\<open>request.json\<close> and \<^verbatim>\<open>json.loads\<close> produce: \<^verbatim>\<open>None\<close>, booleans, unbounded
  integers, IEEE doubles (kept as their 64 bits), strings, lists and dicts. A dict keeps
  its insertion order, so it is an association list; lookups take the first entry of a key
  and an assignment replaces that entry in place, or adds a new one at the end.
\<close>

datatype json =
    JNull
  | JBool bool
  | JInt int
  | JFloat "64 word"
  | JStr string
  | JArr "json list"
  | JObj "(string \<times> json) list"

text \<open>Python truth value testing (\<^verbatim>\<open>if x\<close>, \<^verbatim>\<open>not x\<close>, \<^verbatim>\<open>x or y\<close>).\<close>

fun truthy :: "json \<Rightarrow> bool" where
  "truthy JNull = False"
| "truthy (JBool b) = b"
| "truthy (JInt n) = (n \<noteq> 0)"
| "truthy (JFloat w) = (take_bit 63 w \<noteq> 0)"
| "truthy (JStr s) = (s \<noteq> [])"
| "truthy (JArr xs) = (xs \<noteq> [])"
| "truthy (JObj kvs) = (kvs \<noteq> [])"

fun type_name :: "json \<Rightarrow> string" where
  "type_name JNull = ''NoneType''"
| "type_name (JBool b) = ''bool''"
| "type_name (JInt n) = ''int''"
| "type_name (JFloat w) = ''float''"
| "type_name (JStr s) = ''str''"
| "type_name (JArr xs) = ''list''"
| "type_name (JObj kvs) = ''dict''"

fun is_dict :: "json \<Rightarrow> bool" where
  "is_dict (JObj kvs) = True"
| "is_dict v = False"

subsection \<open>Exceptions\<close>

text \<open>Each exception carries the text that \<^verbatim>\<open>str(e)\<close> gives.\<close>

datatype exn =
    JSONDecodeError string
  | AttributeError string
  | TypeError string
  | KeyError string
  | Exception string
  | ProviderError string

fun str_exn :: "exn \<Rightarrow> string" where
  "str_exn (JSONDecodeError m) = m"
| "str_exn (AttributeError m) = m"
| "str_exn (TypeError m) = m"
| "str_exn (KeyError m) = m"
| "str_exn (Exception m) = m"
| "str_exn (ProviderError m) = m"

definition quoted :: "string \<Rightarrow> string" where
  "quoted s = CHR 0x27 # s @ [CHR 0x27]"

definition no_attribute :: "json \<Rightarrow> string \<Rightarrow> exn" where
  "no_attribute v a =
     AttributeError (quoted (type_name v) @ '' object has no attribute '' @ quoted a)"

subsection \<open>Stored strings\<close>

text \<open>
  The store maps a key to a string. The program only ever tests such a string for
  emptiness and hands it to \<^verbatim>\<open>json.loads\<close>, and only ever writes the result of
  \<^verbatim>\<open>json.dumps\<close>. A stored string is therefore represented by what \<^verbatim>\<open>json.loads\<close>
  makes of it: the JSON document it is the text of (\<open>Doc\<close>), the empty string, or some
  other text that is not JSON, tagged with the message of the decoding error.
  \<^verbatim>\<open>json.dumps\<close> of a value that came from JSON gives a text that loads back to it.
\<close>

datatype blob = Doc json | EmptyStr | Malformed string

fun blob_truthy :: "blob \<Rightarrow> bool" where
  "blob_truthy EmptyStr = False"
| "blob_truthy b = True"

fun json_loads :: "blob \<Rightarrow> exn + json" where
  "json_loads (Doc v) = Inr v"
| "json_loads EmptyStr = Inl (JSONDecodeError ''Expecting value: line 1 column 1 (char 0)'')"
| "json_loads (Malformed m) = Inl (JSONDecodeError m)"

definition json_dumps :: "json \<Rightarrow> blob" where
  "json_dumps v = Doc v"

subsection \<open>Configuration and storage\<close>

text \<open>
  \<open>environ\<close> is \<^verbatim>\<open>os.environ\<close> at start-up; \<open>USE_REPLIT_DB\<close> records whether
  \<^verbatim>\<open>from replit import db\<close> succeeded.
\<close>

record config =
  environ :: "string \<rightharpoonup> string"
  USE_REPLIT_DB :: bool

definition API_KEY :: "config \<Rightarrow> string" where
  "API_KEY cfg =
     (case environ cfg ''HABITCARDS_API_KEY'' of
        None \<Rightarrow> ''habitcards-dev-key''
      | Some v \<Rightarrow> v)"

type_synonym store = "string \<rightharpoonup> blob"

definition db_get :: "config \<Rightarrow> store \<Rightarrow> string \<Rightarrow> blob \<Rightarrow> blob" where
  "db_get cfg replit_db key dflt =
     (if USE_REPLIT_DB cfg then
        (case replit_db key of
           None \<Rightarrow> dflt
         | Some val \<Rightarrow> if blob_truthy val then val else dflt)
      else
        (case replit_db key of None \<Rightarrow> dflt | Some val \<Rightarrow> val))"

definition db_set :: "config \<Rightarrow> store \<Rightarrow> string \<Rightarrow> blob \<Rightarrow> store" where
  "db_set cfg replit_db key val =
     (if USE_REPLIT_DB cfg then replit_db(key \<mapsto> val) else replit_db(key \<mapsto> val))"

text \<open>The default \<^verbatim>\<open>"[]"\<close> is the text of the empty list.\<close>

definition db_items :: "config \<Rightarrow> store \<Rightarrow> string \<Rightarrow> exn + json" where
  "db_items cfg replit_db prefix = json_loads (db_get cfg replit_db prefix (Doc (JArr [])))"

text \<open>\<^verbatim>\<open>items.append(item)\<close>: only a list has the method.\<close>

fun list_append :: "json \<Rightarrow> json \<Rightarrow> exn + json" where
  "list_append (JArr xs) item = Inr (JArr (xs @ [item]))"
| "list_append v item = Inl (no_attribute v ''append'')"

definition db_add :: "config \<Rightarrow> store \<Rightarrow> string \<Rightarrow> json \<Rightarrow> exn + (json \<times> store)" where
  "db_add cfg replit_db prefix item =
     (case db_items cfg replit_db prefix of
        Inl e \<Rightarrow> Inl e
      | Inr items \<Rightarrow>
          (case list_append items item of
             Inl e \<Rightarrow> Inl e
           | Inr items' \<Rightarrow> Inr (item, db_set cfg replit_db prefix (json_dumps items'))))"

text \<open>
  \<^verbatim>\<open>i.get(key, dflt)\<close>: only a dict has the method; a missing key gives the default
  (\<^verbatim>\<open>None\<close> when the call names none).
\<close>

fun dict_get :: "json \<Rightarrow> string \<Rightarrow> json \<Rightarrow> exn + json" where
  "dict_get (JObj kvs) key dflt = Inr (case map_of kvs key of None \<Rightarrow> dflt | Some v \<Rightarrow> v)"
| "dict_get v key dflt = Inl (no_attribute v ''get'')"

text \<open>Iterating over a value: a list gives its elements, a dict its keys, a string its characters.\<close>

fun py_iter :: "json \<Rightarrow> exn + json list" where
  "py_iter (JArr xs) = Inr xs"
| "py_iter (JObj kvs) = Inr (map (\<lambda>kv. JStr (fst kv)) kvs)"
| "py_iter (JStr s) = Inr (map (\<lambda>c. JStr [c]) s)"
| "py_iter v = Inl (TypeError (quoted (type_name v) @ '' object is not iterable''))"

text \<open>
  The comprehension \<^verbatim>\<open>[i for i in items if i.get("id") != item_id]\<close>, where
  \<^verbatim>\<open>item_id\<close> is the string of the URL.
\<close>

fun keep_others :: "json list \<Rightarrow> string \<Rightarrow> exn + json list" where
  "keep_others [] item_id = Inr []"
| "keep_others (i # rest) item_id =
     (case dict_get i ''id'' JNull of
        Inl e \<Rightarrow> Inl e
      | Inr v \<Rightarrow>
          (case keep_others rest item_id of
             Inl e \<Rightarrow> Inl e
           | Inr kept \<Rightarrow> Inr (if v \<noteq> JStr item_id then i # kept else kept)))"

definition db_delete :: "config \<Rightarrow> store \<Rightarrow> string \<Rightarrow> string \<Rightarrow> exn + store" where
  "db_delete cfg replit_db prefix item_id =
     (case db_items cfg replit_db prefix of
        Inl e \<Rightarrow> Inl e
      | Inr items \<Rightarrow>
          (case py_iter items of
             Inl e \<Rightarrow> Inl e
           | Inr elems \<Rightarrow>
               (case keep_others elems item_id of
                  Inl e \<Rightarrow> Inl e
                | Inr kept \<Rightarrow> Inr (db_set cfg replit_db prefix (json_dumps (JArr kept))))))"

subsection \<open>Requests, responses and the API-key check\<close>

text \<open>
  \<open>headers\<close> is \<^verbatim>\<open>request.headers\<close> and \<open>body_json\<close> is the value of
  \<^verbatim>\<open>request.json\<close> (\<open>JNull\<close> for \<^verbatim>\<open>None\<close>). A request whose body Flask itself
  refuses to parse never gets past that expression and is not a value of this type.
\<close>

record request =
  headers :: "string \<rightharpoonup> string"
  body_json :: json

record response =
  status :: nat
  body :: json

definition jsonify :: "json \<Rightarrow> response" where
  "jsonify v = \<lparr>status = 200, body = v\<rparr>"

definition with_status :: "response \<Rightarrow> nat \<Rightarrow> response" where
  "with_status r code = r\<lparr>status := code\<rparr>"

text \<open>\<^verbatim>\<open>request.headers.get(name, dflt)\<close>\<close>

definition headers_get :: "request \<Rightarrow> string \<Rightarrow> string \<Rightarrow> string" where
  "headers_get req name dflt = (case headers req name of None \<Rightarrow> dflt | Some v \<Rightarrow> v)"

definition check_auth :: "config \<Rightarrow> request \<Rightarrow> response option" where
  "check_auth cfg req =
     (let key = headers_get req ''X-API-KEY'' ''''
      in if key \<noteq> API_KEY cfg
         then Some (with_status (jsonify (JObj [(''error'', JStr ''Unauthorized'')])) 401)
         else None)"

subsection \<open>What one request reads from outside the program\<close>

text \<open>
  \<open>urandom16\<close> is the 16 random bytes \<^verbatim>\<open>uuid.uuid4()\<close> draws, \<open>now_isoformat\<close> is
  \<^verbatim>\<open>datetime.now().isoformat()\<close>. \<open>openai_client\<close> is \<open>None\<close> when importing or
  constructing \<^verbatim>\<open>OpenAI()\<close> raises; otherwise it maps the prompt to what the request
  and the read of the reply's text give: an exception or the text. The same for
  \<open>anthropic_client\<close>. \<open>py_str\<close> is Python's \<^verbatim>\<open>str\<close> on values that are not strings.
\<close>

record world =
  urandom16 :: "128 word"
  now_isoformat :: string
  openai_client :: "(string \<Rightarrow> exn + blob) option"
  anthropic_client :: "(string \<Rightarrow> exn + blob) option"
  py_str :: "json \<Rightarrow> string"

text \<open>\<^verbatim>\<open>str(uuid.uuid4())\<close>, as the standard library computes it from the random bytes.\<close>

definition uuid4 :: "128 word \<Rightarrow> 128 word" where
  "uuid4 r =
     or (and (or (and r (not (push_bit 48 0xc000))) (push_bit 48 0x8000))
             (not (push_bit 64 0xf000)))
        (push_bit 76 4)"

definition hex32 :: "128 word \<Rightarrow> string" where
  "hex32 w = map (\<lambda>i. ''0123456789abcdef'' ! unat (take_bit 4 (drop_bit (4 * i) w))) (rev [0..<32])"

definition str_uuid :: "128 word \<Rightarrow> string" where
  "str_uuid w =
     (let h = hex32 w
      in take 8 h @ ''-'' @ take 4 (drop 8 h) @ ''-'' @ take 4 (drop 12 h) @ ''-''
         @ take 4 (drop 16 h) @ ''-'' @ drop 20 h)"

subsection \<open>AI parsing\<close>

definition get_ai_client ::
  "world \<Rightarrow> string option \<times> (string \<Rightarrow> exn + blob) option" where
  "get_ai_client w =
     (case openai_client w of
        Some client \<Rightarrow> (Some ''openai'', Some client)
      | None \<Rightarrow>
          (case anthropic_client w of
             Some client \<Rightarrow> (Some ''anthropic'', Some client)
           | None \<Rightarrow> (None, None)))"

definition base :: string where
  \<open>base = ''You are a voice command parser for a personal assistant app. Parse the user's voice input into structured JSON. Be creative and helpful. Fill in reasonable defaults for anything not mentioned.''\<close>

definition schemas :: "(string \<times> string) list" where
  \<open>schemas =
     [(''alarm'', ''Return JSON: {"label":"alarm name","time":"HH:mm","icon":"SF Symbol","routine":[{"title":"step","duration":"e.g. 5 min","icon":"SF Symbol"}]}''),
      (''meeting'', ''Return JSON: {"title":"name","date":"day","time":"h:mm a","icon":"SF Symbol","checklist":[{"title":"step","duration":"time","icon":"SF Symbol"}],"notes":"context"}''),
      (''mood'', ''Return JSON: {"mood":"one word","level":0.0to1.0,"trigger":"cause","suggestion":"action"}''),
      (''inbox'', ''Return JSON: {"source":"Email/Slack/etc","sourceIcon":"SF Symbol","priority":"High/Medium/Low","actionItems":[{"title":"task","duration":"time","icon":"SF Symbol"}]}''),
      (''schedule'', ''Return JSON: {"blocks":[{"title":"activity","startTime":"h:mm a","endTime":"h:mm a","duration":"e.g. 1h","icon":"SF Symbol","colorName":"blue/green/purple/orange/teal/red"}]}'')]\<close>

text \<open>
  \<^verbatim>\<open>schemas.get(mode, schemas["alarm"])\<close>: \<^verbatim>\<open>mode\<close> is whatever the request's JSON
  holds. A list or a dict cannot be hashed; every other value that is not one of the keys
  gives the default.
\<close>

fun schemas_get :: "json \<Rightarrow> string \<Rightarrow> exn + string" where
  "schemas_get (JStr m) dflt = Inr (case map_of schemas m of None \<Rightarrow> dflt | Some s \<Rightarrow> s)"
| "schemas_get (JArr xs) dflt = Inl (TypeError (''unhashable type: '' @ quoted ''list''))"
| "schemas_get (JObj kvs) dflt = Inl (TypeError (''unhashable type: '' @ quoted ''dict''))"
| "schemas_get v dflt = Inr dflt"

text \<open>A value interpolated into an f-string: a string as it is, anything else through \<^verbatim>\<open>str\<close>.\<close>

fun format_value :: "(json \<Rightarrow> string) \<Rightarrow> json \<Rightarrow> string" where
  "format_value to_str (JStr s) = s"
| "format_value to_str v = to_str v"

text \<open>\<^verbatim>\<open>schemas["alarm"]\<close>: a missing key raises.\<close>

definition schemas_at :: "string \<Rightarrow> exn + string" where
  "schemas_at key =
     (case map_of schemas key of None \<Rightarrow> Inl (KeyError (quoted key)) | Some s \<Rightarrow> Inr s)"

definition build_prompt :: "(json \<Rightarrow> string) \<Rightarrow> json \<Rightarrow> json \<Rightarrow> exn + string" where
  "build_prompt to_str mode text =
     (case schemas_at ''alarm'' of
        Inl e \<Rightarrow> Inl e
      | Inr dflt \<Rightarrow>
          (case schemas_get mode dflt of
             Inl e \<Rightarrow> Inl e
           | Inr schema \<Rightarrow>
               Inr (base @ [CHR 0x0A, CHR 0x0A] @ schema @ [CHR 0x0A, CHR 0x0A]
                    @ ''Voice input: '' @ [CHR 0x22] @ format_value to_str text @ [CHR 0x22])))"

text \<open>
  The second component lists the requests sent to a provider, as (provider, prompt), in
  the order they were sent.
\<close>

definition parse_with_ai :: "world \<Rightarrow> json \<Rightarrow> json \<Rightarrow> (exn + json) \<times> (string \<times> string) list" where
  "parse_with_ai w text mode =
     (case get_ai_client w of
        (provider, client) \<Rightarrow>
          (case build_prompt (py_str w) mode text of
             Inl e \<Rightarrow> (Inl e, [])
           | Inr prompt \<Rightarrow>
               if provider = Some ''openai'' then
                 (case client of
                    None \<Rightarrow> (Inl (no_attribute JNull ''chat''), [])
                  | Some create \<Rightarrow>
                      (case create prompt of
                         Inl e \<Rightarrow> (Inl e, [(''openai'', prompt)])
                       | Inr content \<Rightarrow> (json_loads content, [(''openai'', prompt)])))
               else if provider = Some ''anthropic'' then
                 (let prompt' = prompt @ [CHR 0x0A, CHR 0x0A]
                                @ ''Return ONLY valid JSON, no other text.''
                  in case client of
                       None \<Rightarrow> (Inl (no_attribute JNull ''messages''), [])
                     | Some create \<Rightarrow>
                         (case create prompt' of
                            Inl e \<Rightarrow> (Inl e, [(''anthropic'', prompt')])
                          | Inr text_content \<Rightarrow>
                              (json_loads text_content, [(''anthropic'', prompt')])))
               else (Inl (Exception ''No AI provider available''), [])))"

subsection \<open>Views\<close>

text \<open>
  What a view does: \<open>result\<close> is the response it returns, or the exception that leaves
  it (Flask then answers 500); \<open>db_after\<close> is the store afterwards; \<open>sent\<close> lists the
  requests made to an AI provider.
\<close>

record outcome =
  result :: "exn + response"
  db_after :: store
  sent :: "(string \<times> string) list"

definition returns :: "response \<Rightarrow> store \<Rightarrow> outcome" where
  "returns r replit_db = \<lparr>result = Inr r, db_after = replit_db, sent = []\<rparr>"

definition raises :: "exn \<Rightarrow> store \<Rightarrow> outcome" where
  "raises e replit_db = \<lparr>result = Inl e, db_after = replit_db, sent = []\<rparr>"

text \<open>\<^verbatim>\<open>request.json or {}\<close>\<close>

definition json_or_empty :: "request \<Rightarrow> json" where
  "json_or_empty req = (if truthy (body_json req) then body_json req else JObj [])"

definition index :: "config \<Rightarrow> store \<Rightarrow> outcome" where
  "index cfg replit_db =
     returns (jsonify (JObj
       [(''name'', JStr ''HabitCards API''),
        (''version'', JStr ''1.0''),
        (''endpoints'', JArr [JStr ''/api/parse'', JStr ''/api/alarms'', JStr ''/api/meetings'',
                             JStr ''/api/moods'', JStr ''/api/inbox'', JStr ''/api/schedule'']),
        (''replit_db'', JBool (USE_REPLIT_DB cfg))])) replit_db"

definition parse_voice :: "config \<Rightarrow> world \<Rightarrow> store \<Rightarrow> request \<Rightarrow> outcome" where
  "parse_voice cfg w replit_db req =
     (case check_auth cfg req of
        Some auth_error \<Rightarrow> returns auth_error replit_db
      | None \<Rightarrow>
          (let data = json_or_empty req
           in case dict_get data ''text'' (JStr '''') of
                Inl e \<Rightarrow> raises e replit_db
              | Inr text \<Rightarrow>
                  (case dict_get data ''mode'' (JStr ''alarm'') of
                     Inl e \<Rightarrow> raises e replit_db
                   | Inr mode \<Rightarrow>
                       if \<not> truthy text then
                         returns (with_status (jsonify (JObj [(''error'', JStr ''No text provided'')])) 400)
                                 replit_db
                       else
                         (case parse_with_ai w text mode of
                            (Inr res, calls) \<Rightarrow>
                              \<lparr>result = Inr (jsonify res), db_after = replit_db, sent = calls\<rparr>
                          | (Inl e, calls) \<Rightarrow>
                              \<lparr>result = Inr (with_status (jsonify (JObj [(''error'', JStr (str_exn e))])) 500),
                               db_after = replit_db, sent = calls\<rparr>))))"

subsection \<open>The generated CRUD views\<close>

text \<open>\<^verbatim>\<open>key in s\<close> on a string \<^verbatim>\<open>s\<close> tests for a substring.\<close>

fun starts_with :: "string \<Rightarrow> string \<Rightarrow> bool" where
  "starts_with [] s = True"
| "starts_with (c # cs) [] = False"
| "starts_with (c # cs) (d # ds) = (c = d \<and> starts_with cs ds)"

fun str_contains :: "string \<Rightarrow> string \<Rightarrow> bool" where
  "str_contains key [] = (key = [])"
| "str_contains key (c # cs) = (starts_with key (c # cs) \<or> str_contains key cs)"

fun py_in :: "string \<Rightarrow> json \<Rightarrow> exn + bool" where
  "py_in key (JObj kvs) = Inr (key \<in> fst ` set kvs)"
| "py_in key (JArr xs) = Inr (JStr key \<in> set xs)"
| "py_in key (JStr s) = Inr (str_contains key s)"
| "py_in key v = Inl (TypeError (''argument of type '' @ quoted (type_name v) @ '' is not iterable''))"

text \<open>\<^verbatim>\<open>data[key] = v\<close> with a string key: only a dict takes it.\<close>

fun py_setitem :: "json \<Rightarrow> string \<Rightarrow> json \<Rightarrow> exn + json" where
  "py_setitem (JObj kvs) key v = Inr (JObj (AList.update key v kvs))"
| "py_setitem (JArr xs) key v =
     Inl (TypeError ''list indices must be integers or slices, not str'')"
| "py_setitem d key v =
     Inl (TypeError (quoted (type_name d) @ '' object does not support item assignment''))"

definition list_items :: "config \<Rightarrow> store \<Rightarrow> string \<Rightarrow> request \<Rightarrow> outcome" where
  "list_items cfg replit_db prefix req =
     (case check_auth cfg req of
        Some auth_error \<Rightarrow> returns auth_error replit_db
      | None \<Rightarrow>
          (case db_items cfg replit_db prefix of
             Inl e \<Rightarrow> raises e replit_db
           | Inr items \<Rightarrow> returns (jsonify items) replit_db))"

definition create_item :: "config \<Rightarrow> world \<Rightarrow> store \<Rightarrow> string \<Rightarrow> request \<Rightarrow> outcome" where
  "create_item cfg w replit_db prefix req =
     (case check_auth cfg req of
        Some auth_error \<Rightarrow> returns auth_error replit_db
      | None \<Rightarrow>
          (let data = json_or_empty req
           in case py_in ''id'' data of
                Inl e \<Rightarrow> raises e replit_db
              | Inr has_id \<Rightarrow>
                  (case (if \<not> has_id
                         then py_setitem data ''id'' (JStr (str_uuid (uuid4 (urandom16 w))))
                         else Inr data) of
                     Inl e \<Rightarrow> raises e replit_db
                   | Inr data1 \<Rightarrow>
                       (case py_setitem data1 ''createdAt'' (JStr (now_isoformat w)) of
                          Inl e \<Rightarrow> raises e replit_db
                        | Inr data2 \<Rightarrow>
                            (case db_add cfg replit_db prefix data2 of
                               Inl e \<Rightarrow> raises e replit_db
                             | Inr (item, replit_db') \<Rightarrow>
                                 returns (with_status (jsonify item) 201) replit_db')))))"

text \<open>
  \<^verbatim>\<open>next((i for i in items if i.get("id") == item_id), None)\<close>: the generator stops at
  the first match, so the elements after it are never looked at.
\<close>

fun first_with_id :: "json list \<Rightarrow> string \<Rightarrow> exn + json option" where
  "first_with_id [] item_id = Inr None"
| "first_with_id (i # rest) item_id =
     (case dict_get i ''id'' JNull of
        Inl e \<Rightarrow> Inl e
      | Inr v \<Rightarrow> if v = JStr item_id then Inr (Some i) else first_with_id rest item_id)"

definition not_found :: response where
  "not_found = with_status (jsonify (JObj [(''error'', JStr ''Not found'')])) 404"

definition get_item :: "config \<Rightarrow> store \<Rightarrow> string \<Rightarrow> string \<Rightarrow> request \<Rightarrow> outcome" where
  "get_item cfg replit_db prefix item_id req =
     (case check_auth cfg req of
        Some auth_error \<Rightarrow> returns auth_error replit_db
      | None \<Rightarrow>
          (case db_items cfg replit_db prefix of
             Inl e \<Rightarrow> raises e replit_db
           | Inr items \<Rightarrow>
               (case py_iter items of
                  Inl e \<Rightarrow> raises e replit_db
                | Inr elems \<Rightarrow>
                    (case first_with_id elems item_id of
                       Inl e \<Rightarrow> raises e replit_db
                     | Inr None \<Rightarrow> returns not_found replit_db
                     | Inr (Some item) \<Rightarrow>
                         if \<not> truthy item then returns not_found replit_db
                         else returns (jsonify item) replit_db))))"

definition delete_item :: "config \<Rightarrow> store \<Rightarrow> string \<Rightarrow> string \<Rightarrow> request \<Rightarrow> outcome" where
  "delete_item cfg replit_db prefix item_id req =
     (case check_auth cfg req of
        Some auth_error \<Rightarrow> returns auth_error replit_db
      | None \<Rightarrow>
          (case db_delete cfg replit_db prefix item_id of
             Inl e \<Rightarrow> raises e replit_db
           | Inr replit_db' \<Rightarrow> returns (jsonify (JObj [(''deleted'', JBool True)])) replit_db'))"

subsection \<open>The registered routes\<close>

text \<open>
  \<^verbatim>\<open>make_crud\<close> is called for six prefixes and registers four views for each; with the
  parse view these are the protected endpoints. \<open>index\<close> is the only view without the
  API-key check.
\<close>

definition prefixes :: "string list" where
  "prefixes = [''alarms'', ''meetings'', ''moods'', ''inbox'', ''schedule'', ''profiles'']"

datatype view =
    Index
  | ParseVoice
  | ListItems string
  | CreateItem string
  | GetItem string string
  | DeleteItem string string

fun protected :: "view \<Rightarrow> bool" where
  "protected Index = False"
| "protected v = True"

fun serve :: "config \<Rightarrow> world \<Rightarrow> store \<Rightarrow> view \<Rightarrow> request \<Rightarrow> outcome" where
  "serve cfg w replit_db Index req = index cfg replit_db"
| "serve cfg w replit_db ParseVoice req = parse_voice cfg w replit_db req"
| "serve cfg w replit_db (ListItems prefix) req = list_items cfg replit_db prefix req"
| "serve cfg w replit_db (CreateItem prefix) req = create_item cfg w replit_db prefix req"
| "serve cfg w replit_db (GetItem prefix item_id) req = get_item cfg replit_db prefix item_id req"
| "serve cfg w replit_db (DeleteItem prefix item_id) req = delete_item cfg replit_db prefix item_id req"


subsection \<open>Notions the statements use\<close>

text \<open>The item is a dict whose \<^verbatim>\<open>id\<close> field is the string \<open>item_id\<close>.\<close>

definition id_is :: "json \<Rightarrow> string \<Rightarrow> bool" where
  "id_is i item_id = (dict_get i ''id'' JNull = Inr (JStr item_id))"

text \<open>A dict that has the field; no other value has fields.\<close>

fun has_field :: "string \<Rightarrow> json \<Rightarrow> bool" where
  "has_field key (JObj kvs) = (key \<in> fst ` set kvs)"
| "has_field key v = False"

text \<open>The items that remain when those with the given \<^verbatim>\<open>id\<close> are taken out.\<close>

definition without_id :: "json list \<Rightarrow> string \<Rightarrow> json list" where
  "without_id items item_id = filter (\<lambda>i. \<not> id_is i item_id) items"

text \<open>
  The fields of the item the create view builds from the submitted fields: an \<^verbatim>\<open>id\<close>
  is added when there is none, then \<^verbatim>\<open>createdAt\<close> is set.
\<close>

definition stamped :: "world \<Rightarrow> (string \<times> json) list \<Rightarrow> (string \<times> json) list" where
  "stamped w kvs =
     AList.update ''createdAt'' (JStr (now_isoformat w))
       (if ''id'' \<in> fst ` set kvs then kvs
        else AList.update ''id'' (JStr (str_uuid (uuid4 (urandom16 w)))) kvs)"

text \<open>A list or a dict cannot be the key of a dict lookup.\<close>

fun hashable :: "json \<Rightarrow> bool" where
  "hashable (JArr xs) = False"
| "hashable (JObj kvs) = False"
| "hashable v = True"

text \<open>The stored text of the collection loads to a list of dicts.\<close>

definition collection_ok :: "config \<Rightarrow> store \<Rightarrow> string \<Rightarrow> bool" where
  "collection_ok cfg replit_db prefix =
     (case db_items cfg replit_db prefix of
        Inr (JArr items) \<Rightarrow> list_all is_dict items
      | _ \<Rightarrow> False)"

subsection \<open>Sample inputs\<close>

definition cfg_dev :: config where
  "cfg_dev = \<lparr>environ = Map.empty, USE_REPLIT_DB = False\<rparr>"

definition cfg_replit :: config where
  "cfg_replit = \<lparr>environ = [''HABITCARDS_API_KEY'' \<mapsto> ''s3cret''], USE_REPLIT_DB = True\<rparr>"

definition with_key :: "string \<Rightarrow> json \<Rightarrow> request" where
  "with_key k b = \<lparr>headers = [''X-API-KEY'' \<mapsto> k], body_json = b\<rparr>"

definition world_none :: world where
  "world_none =
     \<lparr>urandom16 = 0, now_isoformat = ''2026-01-02T03:04:05.000006'',
      openai_client = None, anthropic_client = None, py_str = (\<lambda>v. ''?'')\<rparr>"

definition alarms_sample :: "json list" where
  "alarms_sample =
     [JObj [(''id'', JStr ''a1''), (''label'', JStr ''wake'')],
      JObj [(''label'', JStr ''no id'')],
      JObj [(''id'', JStr ''a2''), (''label'', JStr ''gym'')],
      JObj [(''id'', JStr ''a1''), (''label'', JStr ''again'')]]"

definition db_sample :: store where
  "db_sample = [''alarms'' \<mapsto> Doc (JArr alarms_sample)]"

definition world_openai_down :: world where
  "world_openai_down =
     \<lparr>urandom16 = 0, now_isoformat = ''2026-01-02T03:04:05.000006'',
      openai_client = Some (\<lambda>prompt. Inl (ProviderError ''Rate limit exceeded'')),
      anthropic_client = None, py_str = (\<lambda>v. ''?'')\<rparr>"

definition mood_request :: json where
  "mood_request = JObj [(''text'', JStr ''I feel great after my run''), (''mode'', JStr ''mood'')]"

definition list_mode_request :: json where
  "list_mode_request = JObj [(''text'', JStr ''wake me at 7''), (''mode'', JArr [])]"

definition no_text_request :: json where
  "no_text_request = JObj [(''mode'', JStr ''mood'')]"

text \<open>A store in which an alarm already carries the id that \<open>world_none\<close> generates.\<close>

definition db_collide :: store where
  "db_collide =
     [''alarms'' \<mapsto>
        Doc (JArr [JObj [(''id'', JStr ''00000000-0000-4000-8000-000000000000''),
                         (''label'', JStr ''old'')]])]"

section \<open>Properties\<close>

subsection \<open>Auxiliary facts\<close>

lemma db_items_db_set:
  "db_items cfg (db_set cfg replit_db key (json_dumps v)) key = Inr v"
  by (simp add: db_items_def db_set_def db_get_def json_dumps_def)

lemma check_auth_cases:
  "check_auth cfg req =
     (if headers_get req ''X-API-KEY'' '''' \<noteq> API_KEY cfg
      then Some \<lparr>status = 401, body = JObj [(''error'', JStr ''Unauthorized'')]\<rparr>
      else None)"
  by (simp add: check_auth_def with_status_def jsonify_def)

lemma headers_get_with_key: "headers_get (with_key k b) ''X-API-KEY'' d = k"
  by (simp add: headers_get_def with_key_def)

lemma check_auth_with_key:
  "check_auth cfg (with_key k b) =
     (if k \<noteq> API_KEY cfg
      then Some \<lparr>status = 401, body = JObj [(''error'', JStr ''Unauthorized'')]\<rparr>
      else None)"
  by (simp add: check_auth_cases headers_get_with_key)

lemma API_KEY_dev: "API_KEY cfg_dev = ''habitcards-dev-key''"
  by (simp add: API_KEY_def cfg_dev_def)

lemma API_KEY_replit: "API_KEY cfg_replit = ''s3cret''"
  by (simp add: API_KEY_def cfg_replit_def)

lemma db_items_sample: "db_items cfg db_sample ''alarms'' = Inr (JArr alarms_sample)"
  by (simp add: db_items_def db_get_def db_sample_def)

lemma schemas_at_alarm:
  \<open>schemas_at ''alarm'' = Inr ''Return JSON: {"label":"alarm name","time":"HH:mm","icon":"SF Symbol","routine":[{"title":"step","duration":"e.g. 5 min","icon":"SF Symbol"}]}''\<close>
  by (simp add: schemas_at_def schemas_def)

lemma schemas_get_unknown:
  "m \<notin> set [''alarm'', ''meeting'', ''mood'', ''inbox'', ''schedule''] \<Longrightarrow> schemas_get (JStr m) d = Inr d"
  by (simp add: schemas_def)

lemma schemas_get_alarm:
  \<open>schemas_get (JStr ''alarm'') d = Inr ''Return JSON: {"label":"alarm name","time":"HH:mm","icon":"SF Symbol","routine":[{"title":"step","duration":"e.g. 5 min","icon":"SF Symbol"}]}''\<close>
  by (simp add: schemas_def)

lemma id_is_dict:
  "id_is i item_id \<Longrightarrow> truthy i \<and> has_field ''id'' i \<and> is_dict i"
  by (cases i) (auto simp: id_is_def no_attribute_def split: option.splits dest: map_of_SomeD intro: rev_image_eqI)

lemma keep_others_dicts:
  "list_all is_dict items \<Longrightarrow> keep_others items item_id = Inr (without_id items item_id)"
proof (induction items)
  case Nil
  then show ?case by (simp add: without_id_def)
next
  case (Cons i rest)
  then obtain kvs where i: "i = JObj kvs" by (cases i) simp_all
  from Cons have "keep_others rest item_id = Inr (without_id rest item_id)" by simp
  then show ?case by (simp add: i without_id_def id_is_def)
qed

lemma first_with_id_dicts:
  "list_all is_dict items \<Longrightarrow> first_with_id items item_id = Inr (find (\<lambda>i. id_is i item_id) items)"
proof (induction items)
  case Nil
  then show ?case by simp
next
  case (Cons i rest)
  then obtain kvs where i: "i = JObj kvs" by (cases i) simp_all
  from Cons have "first_with_id rest item_id = Inr (find (\<lambda>i. id_is i item_id) rest)" by simp
  then show ?case by (simp add: i id_is_def)
qed

lemma db_delete_dicts:
  assumes "db_items cfg replit_db prefix = Inr (JArr items)" and "list_all is_dict items"
  shows "db_delete cfg replit_db prefix item_id =
           Inr (db_set cfg replit_db prefix (json_dumps (JArr (without_id items item_id))))"
  using assms by (simp add: db_delete_def keep_others_dicts)

lemma without_id_idem: "without_id (without_id items item_id) item_id = without_id items item_id"
  by (simp add: without_id_def)

lemma without_id_dicts: "list_all is_dict items \<Longrightarrow> list_all is_dict (without_id items item_id)"
  by (simp add: without_id_def list_all_iff)

lemma without_id_none: "\<forall>i\<in>set items. \<not> id_is i item_id \<Longrightarrow> without_id items item_id = items"
  by (simp add: without_id_def)

lemma db_set_db_set: "db_set cfg (db_set cfg replit_db key a) key b = db_set cfg replit_db key b"
  by (simp add: db_set_def)

lemma without_id_keeps_no_id:
  "filter (\<lambda>i. \<not> has_field ''id'' i) (without_id items item_id)
     = filter (\<lambda>i. \<not> has_field ''id'' i) items"
proof -
  have "\<And>i. \<not> has_field ''id'' i \<Longrightarrow> \<not> id_is i item_id"
    using id_is_dict by blast
  then show ?thesis
    by (auto simp: without_id_def intro: filter_cong)
qed

lemma get_item_dicts:
  assumes "check_auth cfg req = None"
    and "db_items cfg replit_db prefix = Inr (JArr items)" and "list_all is_dict items"
  shows "get_item cfg replit_db prefix item_id req =
           returns (case find (\<lambda>i. id_is i item_id) items of
                      None \<Rightarrow> not_found
                    | Some item \<Rightarrow> jsonify item) replit_db"
proof (cases "find (\<lambda>i. id_is i item_id) items")
  case None
  with assms show ?thesis
    by (simp add: get_item_def first_with_id_dicts)
next
  case (Some item)
  then have "id_is item item_id"
    by (auto simp: find_Some_iff)
  then have "truthy item"
    by (simp add: id_is_dict)
  with assms Some show ?thesis
    by (simp add: get_item_def first_with_id_dicts)
qed

lemma json_or_empty_dict: "body_json req = JObj kvs \<Longrightarrow> json_or_empty req = JObj kvs"
  by (simp add: json_or_empty_def)

lemma length_hex32: "length (hex32 w) = 32"
  by (simp add: hex32_def)

lemma length_str_uuid: "length (str_uuid w) = 36"
  by (simp add: str_uuid_def Let_def length_hex32)

lemma uuid4_zero: "uuid4 0 = 0x00000000000040008000000000000000"
  by (simp add: uuid4_def)

lemma str_uuid_zero: "str_uuid (uuid4 0) = ''00000000-0000-4000-8000-000000000000''"
  unfolding uuid4_zero by code_simp

lemma create_item_dict:
  assumes "check_auth cfg req = None" and "body_json req = JObj kvs"
    and "db_items cfg replit_db prefix = Inr (JArr items)"
  shows "create_item cfg w replit_db prefix req =
           \<lparr>result = Inr \<lparr>status = 201, body = JObj (stamped w kvs)\<rparr>,
            db_after = db_set cfg replit_db prefix (json_dumps (JArr (items @ [JObj (stamped w kvs)]))),
            sent = []\<rparr>"
  using assms
  by (simp add: create_item_def json_or_empty_dict db_add_def stamped_def returns_def
        with_status_def jsonify_def)

lemma find_last:
  "\<forall>i\<in>set xs. \<not> P i \<Longrightarrow> P x \<Longrightarrow> find P (xs @ [x]) = Some x"
  by (induction xs) simp_all

lemma body_json_with_key: "body_json (with_key k b) = b"
  by (simp add: with_key_def)

lemma build_prompt_hashable: "hashable mode \<Longrightarrow> \<exists>p. build_prompt to_str mode text = Inr p"
  by (cases mode) (simp_all add: build_prompt_def schemas_at_alarm)

lemma parse_with_ai_no_provider:
  assumes "openai_client w = None" and "anthropic_client w = None" and "hashable mode"
  shows "parse_with_ai w text mode = (Inl (Exception ''No AI provider available''), [])"
proof -
  obtain p where "build_prompt (py_str w) mode text = Inr p"
    using build_prompt_hashable [OF assms(3)] by blast
  with assms(1,2) show ?thesis
    by (simp add: parse_with_ai_def get_ai_client_def)
qed

lemma parse_with_ai_sent: "length (snd (parse_with_ai w text mode)) \<le> 1"
  by (simp add: parse_with_ai_def get_ai_client_def Let_def split: option.splits sum.splits)

lemma parse_voice_raise:
  assumes "check_auth cfg req = None"
    and "dict_get (json_or_empty req) ''text'' (JStr '''') = Inr text" and "truthy text"
    and "dict_get (json_or_empty req) ''mode'' (JStr ''alarm'') = Inr mode"
    and "parse_with_ai w text mode = (Inl e, calls)"
  shows "parse_voice cfg w replit_db req =
           \<lparr>result = Inr \<lparr>status = 500, body = JObj [(''error'', JStr (str_exn e))]\<rparr>,
            db_after = replit_db, sent = calls\<rparr>"
  using assms by (simp add: parse_voice_def with_status_def jsonify_def)

lemma json_or_empty_with_key_dict:
  "json_or_empty (with_key k (JObj kvs)) = JObj kvs"
  by (simp add: json_or_empty_dict body_json_with_key)

lemma parse_voice_falsy_text:
  assumes "check_auth cfg req = None"
    and "dict_get (json_or_empty req) ''text'' (JStr '''') = Inr t" and "\<not> truthy t"
  shows "parse_voice cfg w replit_db req =
           \<lparr>result = Inr \<lparr>status = 400, body = JObj [(''error'', JStr ''No text provided'')]\<rparr>,
            db_after = replit_db, sent = []\<rparr>"
proof -
  from assms(2) obtain kvs where "json_or_empty req = JObj kvs"
    by (cases "json_or_empty req") simp_all
  with assms show ?thesis
    by (simp add: parse_voice_def returns_def with_status_def jsonify_def)
qed

lemma dict_get_absent:
  "is_dict d \<Longrightarrow> \<not> has_field key d \<Longrightarrow> dict_get d key dflt = Inr dflt"
  by (cases d) (simp_all add: map_of_eq_None_iff [THEN iffD2])

subsection \<open>Collections stay lists of dicts\<close>

text \<open>
  The statements about a collection below assume that its stored text loads to a list of
  dicts. That holds for a store nothing was written to, and every view keeps it, for every
  request and whatever the view answers: the create view appends a dict or nothing, the
  delete view writes back a sublist.
\<close>

lemma collection_ok_iff:
  "collection_ok cfg replit_db prefix \<longleftrightarrow>
     (\<exists>items. db_items cfg replit_db prefix = Inr (JArr items) \<and> list_all is_dict items)"
  by (auto simp: collection_ok_def split: sum.splits json.splits)

lemma collection_ok_empty: "collection_ok cfg Map.empty prefix"
  by (simp add: collection_ok_def db_items_def db_get_def)

lemma db_items_db_set_other:
  "key' \<noteq> key \<Longrightarrow> db_items cfg (db_set cfg replit_db key b) key' = db_items cfg replit_db key'"
  by (simp add: db_items_def db_get_def db_set_def)

lemma collection_ok_db_set:
  "collection_ok cfg replit_db prefix' \<Longrightarrow> list_all is_dict items \<Longrightarrow>
   collection_ok cfg (db_set cfg replit_db prefix (json_dumps (JArr items))) prefix'"
  by (cases "prefix' = prefix")
     (simp_all add: collection_ok_def db_items_db_set db_items_db_set_other)

lemma create_item_keeps_ok:
  assumes "collection_ok cfg replit_db prefix'"
  shows "collection_ok cfg (db_after (create_item cfg w replit_db prefix req)) prefix'"
proof (cases "result (create_item cfg w replit_db prefix req)")
  case (Inl e)
  then have "db_after (create_item cfg w replit_db prefix req) = replit_db"
    by (auto simp: create_item_def returns_def raises_def Let_def db_add_def
          split: option.splits sum.splits if_splits json.splits)
  with assms show ?thesis by simp
next
  case (Inr r)
  show ?thesis
  proof (cases "check_auth cfg req")
    case (Some a)
    with assms show ?thesis by (simp add: create_item_def returns_def)
  next
    case None
    show ?thesis
    proof (cases "is_dict (json_or_empty req)")
      case False
      then have "\<exists>e. result (create_item cfg w replit_db prefix req) = Inl e"
        using None
        by (cases "json_or_empty req")
           (auto simp: create_item_def raises_def Let_def split: sum.splits if_splits)
      with Inr show ?thesis by simp
    next
      case True
      then obtain kvs where kvs: "json_or_empty req = JObj kvs"
        by (cases "json_or_empty req") simp_all
      show ?thesis
      proof (cases "db_items cfg replit_db prefix")
        case (Inl e)
        with None kvs have "\<exists>e. result (create_item cfg w replit_db prefix req) = Inl e"
          by (simp add: create_item_def raises_def Let_def db_add_def)
        with Inr show ?thesis by simp
      next
        case items: (Inr v)
        show ?thesis
        proof (cases "prefix' = prefix")
          case False
          then show ?thesis
            using assms None kvs items
            by (cases v)
               (auto simp: create_item_def raises_def returns_def Let_def db_add_def
                  collection_ok_def db_items_db_set_other split: sum.splits)
        next
          case same: True
          with assms items obtain xs where xs: "v = JArr xs" "list_all is_dict xs"
            by (auto simp: collection_ok_iff)
          then show ?thesis
            using None kvs items same
            by (simp add: create_item_def returns_def Let_def db_add_def
                  collection_ok_def db_items_db_set)
        qed
      qed
    qed
  qed
qed

lemma delete_item_keeps_ok:
  assumes "collection_ok cfg replit_db prefix'"
  shows "collection_ok cfg (db_after (delete_item cfg replit_db prefix item_id req)) prefix'"
proof (cases "check_auth cfg req")
  case (Some a)
  with assms show ?thesis by (simp add: delete_item_def returns_def)
next
  case None
  show ?thesis
  proof (cases "db_delete cfg replit_db prefix item_id")
    case (Inl e)
    with None assms show ?thesis by (simp add: delete_item_def raises_def)
  next
    case (Inr db')
    show ?thesis
    proof (cases "prefix' = prefix")
      case True
      with assms obtain xs where xs: "db_items cfg replit_db prefix = Inr (JArr xs)" "list_all is_dict xs"
        by (auto simp: collection_ok_iff)
      then show ?thesis
        using None True db_delete_dicts [OF xs, of item_id]
        by (simp add: delete_item_def returns_def collection_ok_def db_items_db_set without_id_dicts)
    next
      case False
      with Inr None assms show ?thesis
        by (auto simp: delete_item_def returns_def db_delete_def collection_ok_def
              db_items_db_set_other split: sum.splits)
    qed
  qed
qed

lemma serve_keeps_ok:
  assumes "collection_ok cfg replit_db prefix"
  shows "collection_ok cfg (db_after (serve cfg w replit_db v req)) prefix"
proof (cases v)
  case Index
  with assms show ?thesis by (simp add: index_def returns_def)
next
  case ParseVoice
  with assms show ?thesis
    by (auto simp: parse_voice_def returns_def raises_def Let_def
          split: option.splits sum.splits prod.splits)
next
  case (ListItems p)
  with assms show ?thesis
    by (auto simp: list_items_def returns_def raises_def split: option.splits sum.splits)
next
  case (CreateItem p)
  with assms show ?thesis by (simp add: create_item_keeps_ok)
next
  case (GetItem p i)
  with assms show ?thesis
    by (auto simp: get_item_def returns_def raises_def split: option.splits sum.splits)
next
  case (DeleteItem p i)
  with assms show ?thesis by (simp add: delete_item_keeps_ok)
qed

subsection \<open>The API-key check\<close>

text \<open>
  Claim C1. Whenever the value read from the \<^verbatim>\<open>X-API-KEY\<close> header (the empty string
  when the header is missing) differs from the configured key, every protected view, the
  parse view and the four views of every collection, returns status 401 with the body
  \<^verbatim>\<open>{"error": "Unauthorized"}\<close>, leaves the store as it was and sends nothing to an AI
  provider.
\<close>

theorem unauthorized_401_no_mutation:
  assumes "headers_get req ''X-API-KEY'' '''' \<noteq> API_KEY cfg"
    and "protected v"
  shows "serve cfg w replit_db v req =
           \<lparr>result = Inr \<lparr>status = 401, body = JObj [(''error'', JStr ''Unauthorized'')]\<rparr>,
            db_after = replit_db, sent = []\<rparr>"
  using assms
  by (cases v)
     (simp_all add: check_auth_cases parse_voice_def list_items_def create_item_def
        get_item_def delete_item_def returns_def)

theorem unauthorized_401_no_mutation_witness:
  "headers_get (with_key ''guess'' (JObj [(''label'', JStr ''x'')])) ''X-API-KEY'' ''''
      \<noteq> API_KEY cfg_replit
   \<and> protected (DeleteItem ''alarms'' ''a1'')
   \<and> serve cfg_replit world_none db_sample (DeleteItem ''alarms'' ''a1'')
        (with_key ''guess'' (JObj [(''label'', JStr ''x'')]))
      = \<lparr>result = Inr \<lparr>status = 401, body = JObj [(''error'', JStr ''Unauthorized'')]\<rparr>,
         db_after = db_sample, sent = []\<rparr>"
  using unauthorized_401_no_mutation [of "with_key ''guess'' (JObj [(''label'', JStr ''x'')])"
      cfg_replit "DeleteItem ''alarms'' ''a1''" world_none db_sample]
  by (simp add: headers_get_with_key API_KEY_replit)

subsection \<open>Creating an alarm and reading it back\<close>

text \<open>
  Claim C2, amended. Take a POST to \<^verbatim>\<open>/api/alarms\<close> with the right key and the
  body \<^verbatim>\<open>{"label": "x"}\<close>, on a collection whose stored text loads to a list of dicts
  none of which already has the generated id. It answers 201 with an item whose \<^verbatim>\<open>id\<close>
  is the generated string, which has 36 characters. A GET of \<^verbatim>\<open>/api/alarms/<that id>\<close>
  with the right key, on the store the POST left, answers 200 with the same item: its
  \<^verbatim>\<open>label\<close> is \<^verbatim>\<open>"x"\<close>, its \<^verbatim>\<open>id\<close> is the non-empty generated string and it has a
  \<^verbatim>\<open>createdAt\<close> field, holding the time of the POST.
\<close>

theorem create_then_get_alarm:
  assumes "check_auth cfg post = None"
    and "body_json post = JObj [(''label'', JStr ''x'')]"
    and "check_auth cfg get = None"
    and "db_items cfg replit_db ''alarms'' = Inr (JArr items)"
    and "list_all is_dict items"
    and "\<forall>i\<in>set items. \<not> id_is i (str_uuid (uuid4 (urandom16 w)))"
  shows "let new_id = str_uuid (uuid4 (urandom16 w));
             item = JObj [(''label'', JStr ''x''), (''id'', JStr new_id),
                          (''createdAt'', JStr (now_isoformat w))];
             replit_db' = db_set cfg replit_db ''alarms'' (json_dumps (JArr (items @ [item])))
         in create_item cfg w replit_db ''alarms'' post
              = \<lparr>result = Inr \<lparr>status = 201, body = item\<rparr>, db_after = replit_db', sent = []\<rparr>
            \<and> get_item cfg replit_db' ''alarms'' new_id get
              = \<lparr>result = Inr \<lparr>status = 200, body = item\<rparr>, db_after = replit_db', sent = []\<rparr>
            \<and> dict_get item ''label'' JNull = Inr (JStr ''x'')
            \<and> dict_get item ''id'' JNull = Inr (JStr new_id)
            \<and> new_id \<noteq> [] \<and> length new_id = 36
            \<and> has_field ''createdAt'' item
            \<and> dict_get item ''createdAt'' JNull = Inr (JStr (now_isoformat w))"
proof -
  let ?new_id = "str_uuid (uuid4 (urandom16 w))"
  let ?item = "JObj [(''label'', JStr ''x''), (''id'', JStr ?new_id),
                     (''createdAt'', JStr (now_isoformat w))]"
  let ?db' = "db_set cfg replit_db ''alarms'' (json_dumps (JArr (items @ [?item])))"
  have st: "stamped w [(''label'', JStr ''x'')] =
              [(''label'', JStr ''x''), (''id'', JStr ?new_id), (''createdAt'', JStr (now_isoformat w))]"
    by (simp add: stamped_def)
  have post: "create_item cfg w replit_db ''alarms'' post
              = \<lparr>result = Inr \<lparr>status = 201, body = ?item\<rparr>, db_after = ?db', sent = []\<rparr>"
    using create_item_dict [OF assms(1,2,4), of w] by (simp only: st)
  have items': "db_items cfg ?db' ''alarms'' = Inr (JArr (items @ [?item]))"
    by (rule db_items_db_set)
  have dicts: "list_all is_dict (items @ [?item])"
    using assms(5) by simp
  have mine: "id_is ?item ?new_id"
    by (simp add: id_is_def)
  have "find (\<lambda>i. id_is i ?new_id) (items @ [?item]) = Some ?item"
    using assms(6) mine by (rule find_last)
  then have get: "get_item cfg ?db' ''alarms'' ?new_id get
              = \<lparr>result = Inr \<lparr>status = 200, body = ?item\<rparr>, db_after = ?db', sent = []\<rparr>"
    using get_item_dicts [OF assms(3) items' dicts, of ?new_id]
    by (simp add: returns_def jsonify_def)
  have len: "length ?new_id = 36"
    by (rule length_str_uuid)
  then have "?new_id \<noteq> []"
    by auto
  with post get len show ?thesis
    by (simp add: Let_def)
qed

theorem create_then_get_alarm_witness:
  "check_auth cfg_dev (with_key ''habitcards-dev-key'' (JObj [(''label'', JStr ''x'')])) = None
   \<and> body_json (with_key ''habitcards-dev-key'' (JObj [(''label'', JStr ''x'')]))
       = JObj [(''label'', JStr ''x'')]
   \<and> check_auth cfg_dev (with_key ''habitcards-dev-key'' JNull) = None
   \<and> db_items cfg_dev db_sample ''alarms'' = Inr (JArr alarms_sample)
   \<and> list_all is_dict alarms_sample
   \<and> list_all (\<lambda>i. \<not> id_is i (str_uuid (uuid4 (urandom16 world_none)))) alarms_sample
   \<and> get_item cfg_dev
        (db_sample(''alarms'' \<mapsto> Doc (JArr (alarms_sample @
           [JObj [(''label'', JStr ''x''), (''id'', JStr ''00000000-0000-4000-8000-000000000000''),
                  (''createdAt'', JStr ''2026-01-02T03:04:05.000006'')]]))))
        ''alarms'' ''00000000-0000-4000-8000-000000000000'' (with_key ''habitcards-dev-key'' JNull)
       = \<lparr>result = Inr \<lparr>status = 200,
             body = JObj [(''label'', JStr ''x''), (''id'', JStr ''00000000-0000-4000-8000-000000000000''),
                          (''createdAt'', JStr ''2026-01-02T03:04:05.000006'')]\<rparr>,
          db_after = db_sample(''alarms'' \<mapsto> Doc (JArr (alarms_sample @
           [JObj [(''label'', JStr ''x''), (''id'', JStr ''00000000-0000-4000-8000-000000000000''),
                  (''createdAt'', JStr ''2026-01-02T03:04:05.000006'')]]))),
          sent = []\<rparr>"
  using create_then_get_alarm [of cfg_dev "with_key ''habitcards-dev-key'' (JObj [(''label'', JStr ''x'')])"
          "with_key ''habitcards-dev-key'' JNull" db_sample alarms_sample world_none]
  by (simp add: check_auth_with_key API_KEY_dev db_items_sample body_json_with_key
        world_none_def str_uuid_zero db_set_def json_dumps_def Let_def alarms_sample_def id_is_def)

text \<open>
  As stated, for every collection, the claim fails: the create view does not look whether
  the generated id is already in use, and the get view returns the first item with the id
  of the path. When a stored alarm already has the generated id, the GET of the returned
  id answers with that older item, whose \<^verbatim>\<open>label\<close> is not \<^verbatim>\<open>"x"\<close>.
\<close>

theorem create_then_get_alarm_counterexample:
  "check_auth cfg_dev (with_key ''habitcards-dev-key'' (JObj [(''label'', JStr ''x'')])) = None
   \<and> check_auth cfg_dev (with_key ''habitcards-dev-key'' JNull) = None
   \<and> collection_ok cfg_dev db_collide ''alarms''
   \<and> result (create_item cfg_dev world_none db_collide ''alarms''
                (with_key ''habitcards-dev-key'' (JObj [(''label'', JStr ''x'')])))
       = Inr \<lparr>status = 201,
              body = JObj [(''label'', JStr ''x''),
                           (''id'', JStr ''00000000-0000-4000-8000-000000000000''),
                           (''createdAt'', JStr ''2026-01-02T03:04:05.000006'')]\<rparr>
   \<and> result (get_item cfg_dev
                (db_after (create_item cfg_dev world_none db_collide ''alarms''
                             (with_key ''habitcards-dev-key'' (JObj [(''label'', JStr ''x'')]))))
                ''alarms'' ''00000000-0000-4000-8000-000000000000''
                (with_key ''habitcards-dev-key'' JNull))
       = Inr \<lparr>status = 200,
              body = JObj [(''id'', JStr ''00000000-0000-4000-8000-000000000000''),
                           (''label'', JStr ''old'')]\<rparr>
   \<and> dict_get (JObj [(''id'', JStr ''00000000-0000-4000-8000-000000000000''),
                      (''label'', JStr ''old'')]) ''label'' JNull
       \<noteq> Inr (JStr ''x'')"
  by (simp add: check_auth_with_key API_KEY_dev body_json_with_key create_item_def
        json_or_empty_def db_add_def db_items_def db_get_def db_set_def json_dumps_def
        cfg_dev_def API_KEY_def db_collide_def world_none_def str_uuid_zero get_item_def
        returns_def with_status_def jsonify_def collection_ok_def)

subsection \<open>Deleting by id\<close>

text \<open>
  Claim C3. When the stored text of a collection loads to a list of dicts, \<open>db_delete\<close>
  stores exactly the items whose \<^verbatim>\<open>id\<close> is not the given one, in their order. When no
  item has that id the collection reads as before. Deleting a second time changes nothing,
  and the delete view answers \<^verbatim>\<open>{"deleted": true}\<close> with status 200 both times.
\<close>

theorem db_delete_removes_by_id:
  assumes "db_items cfg replit_db prefix = Inr (JArr items)" and "list_all is_dict items"
  shows "db_delete cfg replit_db prefix item_id =
           Inr (db_set cfg replit_db prefix (json_dumps (JArr (without_id items item_id))))
         \<and> db_items cfg (db_set cfg replit_db prefix (json_dumps (JArr (without_id items item_id)))) prefix
             = Inr (JArr (without_id items item_id))
         \<and> ((\<forall>i\<in>set items. \<not> id_is i item_id) \<longrightarrow>
              db_items cfg (db_set cfg replit_db prefix (json_dumps (JArr (without_id items item_id)))) prefix
                = db_items cfg replit_db prefix)
         \<and> db_delete cfg (db_set cfg replit_db prefix (json_dumps (JArr (without_id items item_id)))) prefix item_id
             = Inr (db_set cfg replit_db prefix (json_dumps (JArr (without_id items item_id))))
         \<and> (check_auth cfg req = None \<longrightarrow>
              delete_item cfg replit_db prefix item_id req
                = \<lparr>result = Inr \<lparr>status = 200, body = JObj [(''deleted'', JBool True)]\<rparr>,
                   db_after = db_set cfg replit_db prefix (json_dumps (JArr (without_id items item_id))),
                   sent = []\<rparr>
              \<and> delete_item cfg (db_set cfg replit_db prefix (json_dumps (JArr (without_id items item_id)))) prefix item_id req
                = \<lparr>result = Inr \<lparr>status = 200, body = JObj [(''deleted'', JBool True)]\<rparr>,
                   db_after = db_set cfg replit_db prefix (json_dumps (JArr (without_id items item_id))),
                   sent = []\<rparr>)"
proof -
  let ?kept = "without_id items item_id"
  let ?db' = "db_set cfg replit_db prefix (json_dumps (JArr ?kept))"
  have first: "db_delete cfg replit_db prefix item_id = Inr ?db'"
    using assms by (rule db_delete_dicts)
  have items': "db_items cfg ?db' prefix = Inr (JArr ?kept)"
    by (rule db_items_db_set)
  have second: "db_delete cfg ?db' prefix item_id = Inr ?db'"
    using db_delete_dicts [OF items' without_id_dicts [OF assms(2)], of item_id]
    by (simp add: without_id_idem db_set_db_set)
  have same: "(\<forall>i\<in>set items. \<not> id_is i item_id) \<longrightarrow> db_items cfg ?db' prefix = db_items cfg replit_db prefix"
    using assms(1) by (simp add: without_id_none db_items_db_set)
  show ?thesis
    using first items' second same
    by (simp add: delete_item_def returns_def jsonify_def)
qed

theorem db_delete_removes_by_id_witness:
  "db_items cfg_dev db_sample ''alarms'' = Inr (JArr alarms_sample)
   \<and> list_all is_dict alarms_sample
   \<and> check_auth cfg_dev (with_key ''habitcards-dev-key'' JNull) = None
   \<and> db_delete cfg_dev db_sample ''alarms'' ''a1''
       = Inr (db_sample(''alarms'' \<mapsto>
                Doc (JArr [JObj [(''label'', JStr ''no id'')],
                           JObj [(''id'', JStr ''a2''), (''label'', JStr ''gym'')]])))
   \<and> delete_item cfg_dev db_sample ''alarms'' ''a1'' (with_key ''habitcards-dev-key'' JNull)
       = \<lparr>result = Inr \<lparr>status = 200, body = JObj [(''deleted'', JBool True)]\<rparr>,
          db_after = db_sample(''alarms'' \<mapsto>
                Doc (JArr [JObj [(''label'', JStr ''no id'')],
                           JObj [(''id'', JStr ''a2''), (''label'', JStr ''gym'')]])),
          sent = []\<rparr>
   \<and> list_all (\<lambda>i. \<not> id_is i ''zz'') alarms_sample
   \<and> db_items cfg_dev (db_sample(''alarms'' \<mapsto> Doc (JArr alarms_sample))) ''alarms''
       = db_items cfg_dev db_sample ''alarms''
   \<and> delete_item cfg_dev db_sample ''alarms'' ''zz'' (with_key ''habitcards-dev-key'' JNull)
       = \<lparr>result = Inr \<lparr>status = 200, body = JObj [(''deleted'', JBool True)]\<rparr>,
          db_after = db_sample(''alarms'' \<mapsto> Doc (JArr alarms_sample)), sent = []\<rparr>"
  using db_delete_removes_by_id [of cfg_dev db_sample "''alarms''" alarms_sample "''a1''"
          "with_key ''habitcards-dev-key'' JNull"]
        db_delete_removes_by_id [of cfg_dev db_sample "''alarms''" alarms_sample "''zz''"
          "with_key ''habitcards-dev-key'' JNull"]
  by (simp add: db_items_sample check_auth_with_key API_KEY_dev alarms_sample_def
        without_id_def id_is_def db_set_def json_dumps_def)

subsection \<open>Appending to a collection\<close>

text \<open>
  Claim C4. When the stored text of a collection loads to the list \<open>items\<close>, \<open>db_add\<close>
  returns the item it was given, unchanged, and stores the text of \<open>items @ [item]\<close>:
  the items that were there keep their values and their order and the new one comes last.
\<close>

theorem db_add_appends:
  assumes "db_items cfg replit_db prefix = Inr (JArr items)"
  shows "db_add cfg replit_db prefix item =
           Inr (item, db_set cfg replit_db prefix (json_dumps (JArr (items @ [item]))))
         \<and> db_items cfg (db_set cfg replit_db prefix (json_dumps (JArr (items @ [item])))) prefix
             = Inr (JArr (items @ [item]))"
  using assms by (simp add: db_add_def db_items_db_set)

theorem db_add_appends_witness:
  "db_items cfg_replit db_sample ''alarms'' = Inr (JArr alarms_sample)
   \<and> db_add cfg_replit db_sample ''alarms'' (JObj [(''label'', JStr ''x'')])
       = Inr (JObj [(''label'', JStr ''x'')],
              db_sample(''alarms'' \<mapsto> Doc (JArr (alarms_sample @ [JObj [(''label'', JStr ''x'')]]))))
   \<and> db_items cfg_replit
        (db_sample(''alarms'' \<mapsto> Doc (JArr (alarms_sample @ [JObj [(''label'', JStr ''x'')]]))))
        ''alarms''
       = Inr (JArr (alarms_sample @ [JObj [(''label'', JStr ''x'')]]))"
  using db_add_appends [of cfg_replit db_sample "''alarms''" alarms_sample
      "JObj [(''label'', JStr ''x'')]"]
  by (simp add: db_items_sample db_set_def json_dumps_def)

subsection \<open>The prompt builder\<close>

text \<open>
  Claim C5. For a mode that is a string other than the five keys of \<open>schemas\<close>, and any
  text, \<open>build_prompt\<close> returns what it returns for the mode \<^verbatim>\<open>"alarm"\<close>: the base
  instruction, the alarm schema and the voice input.
\<close>

theorem unknown_mode_alarm_prompt:
  assumes "m \<notin> set [''alarm'', ''meeting'', ''mood'', ''inbox'', ''schedule'']"
  shows \<open>build_prompt to_str (JStr m) text = build_prompt to_str (JStr ''alarm'') text
         \<and> build_prompt to_str (JStr m) text =
             Inr (base @ [CHR 0x0A, CHR 0x0A]
                  @ ''Return JSON: {"label":"alarm name","time":"HH:mm","icon":"SF Symbol","routine":[{"title":"step","duration":"e.g. 5 min","icon":"SF Symbol"}]}''
                  @ [CHR 0x0A, CHR 0x0A] @ ''Voice input: '' @ [CHR 0x22]
                  @ format_value to_str text @ [CHR 0x22])\<close>
  using schemas_get_unknown [OF assms]
  by (simp add: build_prompt_def schemas_at_alarm schemas_get_alarm del: schemas_get.simps)

theorem unknown_mode_alarm_prompt_witness:
  "''party'' \<notin> set [''alarm'', ''meeting'', ''mood'', ''inbox'', ''schedule'']
   \<and> build_prompt (py_str world_none) (JStr ''party'') (JStr ''wake me at 7'')
       = build_prompt (py_str world_none) (JStr ''alarm'') (JStr ''wake me at 7'')"
  using unknown_mode_alarm_prompt [of "''party''" "py_str world_none" "JStr ''wake me at 7''"]
  by simp

subsection \<open>Failures of the AI call\<close>

text \<open>
  Claim C6, amended. When neither client can be constructed and the mode is not a list or
  a dict, \<open>parse_with_ai\<close> raises \<^verbatim>\<open>Exception("No AI provider available")\<close> and sends
  nothing. Whatever exception \<open>parse_with_ai\<close> raises, the parse view, for a request with
  the right key and a non-empty text, answers 500 with \<^verbatim>\<open>{"error": str(e)}\<close> and
  leaves the store as it was. At most one request goes to a provider, so nothing is
  retried.
\<close>

theorem parse_failures_become_500:
  "(openai_client w = None \<and> anthropic_client w = None \<and> hashable mode \<longrightarrow>
      parse_with_ai w text mode = (Inl (Exception ''No AI provider available''), []))
   \<and> length (snd (parse_with_ai w text mode)) \<le> 1
   \<and> (check_auth cfg req = None
        \<and> dict_get (json_or_empty req) ''text'' (JStr '''') = Inr text \<and> truthy text
        \<and> dict_get (json_or_empty req) ''mode'' (JStr ''alarm'') = Inr mode
        \<and> parse_with_ai w text mode = (Inl e, calls) \<longrightarrow>
      parse_voice cfg w replit_db req =
        \<lparr>result = Inr \<lparr>status = 500, body = JObj [(''error'', JStr (str_exn e))]\<rparr>,
         db_after = replit_db, sent = calls\<rparr>)"
  using parse_with_ai_no_provider [of w mode "text"] parse_with_ai_sent [of w "text" mode]
    parse_voice_raise [of cfg req "text" mode w e calls replit_db]
  by blast

theorem parse_failures_become_500_witness:
  "openai_client world_none = None \<and> anthropic_client world_none = None
   \<and> hashable (JStr ''mood'')
   \<and> check_auth cfg_dev (with_key ''habitcards-dev-key'' mood_request) = None
   \<and> dict_get (json_or_empty (with_key ''habitcards-dev-key'' mood_request)) ''text'' (JStr '''')
       = Inr (JStr ''I feel great after my run'')
   \<and> truthy (JStr ''I feel great after my run'')
   \<and> dict_get (json_or_empty (with_key ''habitcards-dev-key'' mood_request)) ''mode'' (JStr ''alarm'')
       = Inr (JStr ''mood'')
   \<and> parse_with_ai world_none (JStr ''I feel great after my run'') (JStr ''mood'')
       = (Inl (Exception ''No AI provider available''), [])
   \<and> parse_voice cfg_dev world_none db_sample (with_key ''habitcards-dev-key'' mood_request)
       = \<lparr>result = Inr \<lparr>status = 500, body = JObj [(''error'', JStr ''No AI provider available'')]\<rparr>,
          db_after = db_sample, sent = []\<rparr>"
  using parse_failures_become_500 [of world_none "JStr ''mood''" "JStr ''I feel great after my run''"
      cfg_dev "with_key ''habitcards-dev-key'' mood_request" "Exception ''No AI provider available''" "[]"
      db_sample]
  by (simp add: world_none_def check_auth_with_key API_KEY_dev mood_request_def
        json_or_empty_with_key_dict)

text \<open>
  As stated, without the condition on the mode, the first part fails: a list as mode makes
  \<^verbatim>\<open>schemas.get\<close> raise a \<^verbatim>\<open>TypeError\<close> before the provider is looked at.
\<close>

theorem no_provider_counterexample:
  "openai_client world_none = None \<and> anthropic_client world_none = None
   \<and> fst (parse_with_ai world_none (JStr ''wake me at 7'') (JArr []))
       = Inl (TypeError (''unhashable type: '' @ quoted ''list''))
   \<and> fst (parse_with_ai world_none (JStr ''wake me at 7'') (JArr []))
       \<noteq> Inl (Exception ''No AI provider available'')
   \<and> check_auth cfg_dev (with_key ''habitcards-dev-key'' list_mode_request) = None
   \<and> result (parse_voice cfg_dev world_none db_sample (with_key ''habitcards-dev-key'' list_mode_request))
       = Inr \<lparr>status = 500, body = JObj [(''error'', JStr (''unhashable type: '' @ quoted ''list''))]\<rparr>"
  by (simp add: world_none_def parse_with_ai_def get_ai_client_def build_prompt_def schemas_at_alarm
        parse_voice_def check_auth_with_key API_KEY_dev list_mode_request_def
        json_or_empty_with_key_dict with_status_def jsonify_def)

text \<open>An exception of the provider's client, here with OpenAI constructed and failing.\<close>

lemma provider_error_500:
  "result (parse_voice cfg_dev world_openai_down db_sample (with_key ''habitcards-dev-key'' mood_request))
     = Inr \<lparr>status = 500, body = JObj [(''error'', JStr ''Rate limit exceeded'')]\<rparr>
   \<and> length (sent (parse_voice cfg_dev world_openai_down db_sample (with_key ''habitcards-dev-key'' mood_request))) = 1
   \<and> db_after (parse_voice cfg_dev world_openai_down db_sample (with_key ''habitcards-dev-key'' mood_request)) = db_sample"
  by (simp add: world_openai_down_def parse_with_ai_def get_ai_client_def build_prompt_def schemas_at_alarm
        parse_voice_def check_auth_with_key API_KEY_dev mood_request_def schemas_def
        json_or_empty_with_key_dict with_status_def jsonify_def)

subsection \<open>A parse request without text\<close>

text \<open>
  Claim C7, amended. For a request with the right key whose data (the value of
  \<^verbatim>\<open>request.json\<close>, or the empty dict when that value is falsy) is a dict with no
  \<^verbatim>\<open>text\<close> field or with a falsy one, the parse view answers 400 with
  \<^verbatim>\<open>{"error": "No text provided"}\<close>, leaves the store as it was and sends nothing to a
  provider; in particular when the value of \<^verbatim>\<open>request.json\<close> is a dict without the
  field, and when it is one of the falsy values \<^verbatim>\<open>None\<close>, \<^verbatim>\<open>False\<close>, \<^verbatim>\<open>0\<close>,
  \<^verbatim>\<open>0.0\<close>, \<^verbatim>\<open>""\<close>, \<^verbatim>\<open>[]\<close> and \<^verbatim>\<open>{}\<close>. The key is checked first: with a wrong key the
  answer is 401 whatever the body.
\<close>

theorem parse_voice_no_text_400:
  "(check_auth cfg req = None
      \<and> dict_get (json_or_empty req) ''text'' (JStr '''') = Inr t \<and> \<not> truthy t \<longrightarrow>
    parse_voice cfg w replit_db req =
      \<lparr>result = Inr \<lparr>status = 400, body = JObj [(''error'', JStr ''No text provided'')]\<rparr>,
       db_after = replit_db, sent = []\<rparr>)
   \<and> (check_auth cfg req = None
      \<and> is_dict (body_json req) \<and> \<not> has_field ''text'' (body_json req) \<longrightarrow>
    parse_voice cfg w replit_db req =
      \<lparr>result = Inr \<lparr>status = 400, body = JObj [(''error'', JStr ''No text provided'')]\<rparr>,
       db_after = replit_db, sent = []\<rparr>)
   \<and> (check_auth cfg req = None \<and> \<not> truthy (body_json req) \<longrightarrow>
    parse_voice cfg w replit_db req =
      \<lparr>result = Inr \<lparr>status = 400, body = JObj [(''error'', JStr ''No text provided'')]\<rparr>,
       db_after = replit_db, sent = []\<rparr>)
   \<and> (check_auth cfg req \<noteq> None \<longrightarrow>
    parse_voice cfg w replit_db req =
      \<lparr>result = Inr \<lparr>status = 401, body = JObj [(''error'', JStr ''Unauthorized'')]\<rparr>,
       db_after = replit_db, sent = []\<rparr>)"
proof -
  have dict: "dict_get (json_or_empty req) ''text'' (JStr '''') = Inr (JStr '''')"
    if "is_dict (body_json req)" "\<not> has_field ''text'' (body_json req)"
  proof -
    from that(1) obtain kvs where "body_json req = JObj kvs"
      by (cases "body_json req") simp_all
    then have "json_or_empty req = body_json req"
      by (simp add: json_or_empty_dict)
    with that show ?thesis
      by (simp add: dict_get_absent)
  qed
  have falsy: "dict_get (json_or_empty req) ''text'' (JStr '''') = Inr (JStr '''')"
    if "\<not> truthy (body_json req)"
    using that by (simp add: json_or_empty_def)
  have unauth: "parse_voice cfg w replit_db req =
      \<lparr>result = Inr \<lparr>status = 401, body = JObj [(''error'', JStr ''Unauthorized'')]\<rparr>,
       db_after = replit_db, sent = []\<rparr>" if "check_auth cfg req \<noteq> None"
    using that by (auto simp: parse_voice_def check_auth_cases returns_def split: if_splits)
  show ?thesis
    using parse_voice_falsy_text [of cfg req t w replit_db]
      parse_voice_falsy_text [of cfg req "JStr ''''" w replit_db] dict falsy unauth
    by auto
qed

theorem parse_voice_no_text_400_witness:
  "check_auth cfg_dev (with_key ''habitcards-dev-key'' (JObj [(''text'', JInt 0)])) = None
   \<and> dict_get (json_or_empty (with_key ''habitcards-dev-key'' (JObj [(''text'', JInt 0)]))) ''text'' (JStr '''')
       = Inr (JInt 0)
   \<and> \<not> truthy (JInt 0)
   \<and> parse_voice cfg_dev world_openai_down db_sample (with_key ''habitcards-dev-key'' (JObj [(''text'', JInt 0)]))
       = \<lparr>result = Inr \<lparr>status = 400, body = JObj [(''error'', JStr ''No text provided'')]\<rparr>,
          db_after = db_sample, sent = []\<rparr>
   \<and> check_auth cfg_dev (with_key ''habitcards-dev-key'' no_text_request) = None
   \<and> is_dict (body_json (with_key ''habitcards-dev-key'' no_text_request))
   \<and> \<not> has_field ''text'' (body_json (with_key ''habitcards-dev-key'' no_text_request))
   \<and> parse_voice cfg_dev world_openai_down db_sample (with_key ''habitcards-dev-key'' no_text_request)
       = \<lparr>result = Inr \<lparr>status = 400, body = JObj [(''error'', JStr ''No text provided'')]\<rparr>,
          db_after = db_sample, sent = []\<rparr>
   \<and> check_auth cfg_dev (with_key ''habitcards-dev-key'' JNull) = None
   \<and> \<not> truthy (body_json (with_key ''habitcards-dev-key'' JNull))
   \<and> parse_voice cfg_dev world_openai_down db_sample (with_key ''habitcards-dev-key'' JNull)
       = \<lparr>result = Inr \<lparr>status = 400, body = JObj [(''error'', JStr ''No text provided'')]\<rparr>,
          db_after = db_sample, sent = []\<rparr>
   \<and> check_auth cfg_dev (with_key ''guess'' no_text_request) \<noteq> None
   \<and> parse_voice cfg_dev world_openai_down db_sample (with_key ''guess'' no_text_request)
       = \<lparr>result = Inr \<lparr>status = 401, body = JObj [(''error'', JStr ''Unauthorized'')]\<rparr>,
          db_after = db_sample, sent = []\<rparr>"
  using parse_voice_no_text_400 [of cfg_dev "with_key ''habitcards-dev-key'' (JObj [(''text'', JInt 0)])"
          "JInt 0" world_openai_down db_sample]
        parse_voice_no_text_400 [of cfg_dev "with_key ''habitcards-dev-key'' no_text_request"
          "JStr ''''" world_openai_down db_sample]
        parse_voice_no_text_400 [of cfg_dev "with_key ''habitcards-dev-key'' JNull"
          "JStr ''''" world_openai_down db_sample]
        parse_voice_no_text_400 [of cfg_dev "with_key ''guess'' no_text_request"
          "JStr ''''" world_openai_down db_sample]
  by (simp add: check_auth_with_key API_KEY_dev body_json_with_key json_or_empty_with_key_dict
        no_text_request_def)

text \<open>
  As stated, for every body without a \<^verbatim>\<open>text\<close> field, the claim fails: a body that is
  a non-empty list has no \<^verbatim>\<open>get\<close>, so the view raises instead of answering 400.
\<close>

theorem parse_voice_no_text_counterexample:
  "check_auth cfg_dev (with_key ''habitcards-dev-key'' (JArr [JInt 1])) = None
   \<and> \<not> has_field ''text'' (body_json (with_key ''habitcards-dev-key'' (JArr [JInt 1])))
   \<and> result (parse_voice cfg_dev world_none db_sample (with_key ''habitcards-dev-key'' (JArr [JInt 1])))
       = Inl (no_attribute (JArr [JInt 1]) ''get'')
   \<and> result (parse_voice cfg_dev world_none db_sample (with_key ''habitcards-dev-key'' (JArr [JInt 1])))
       \<noteq> Inr \<lparr>status = 400, body = JObj [(''error'', JStr ''No text provided'')]\<rparr>"
  by (simp add: check_auth_with_key API_KEY_dev body_json_with_key parse_voice_def
        json_or_empty_def raises_def)

subsection \<open>A collection that was never written\<close>

text \<open>
  Claim C8. When the store has no entry for the key, \<open>db_get\<close> gives the default, the
  text \<^verbatim>\<open>"[]"\<close>, which loads to the empty list; so \<open>db_items\<close> gives the empty list
  without raising, and the list view, for a request with the right key, answers 200 with an
  empty array and leaves the store as it was.
\<close>

theorem never_written_lists_empty:
  assumes "replit_db prefix = None"
  shows "db_get cfg replit_db prefix (Doc (JArr [])) = Doc (JArr [])
         \<and> json_loads (Doc (JArr [])) = Inr (JArr [])
         \<and> db_items cfg replit_db prefix = Inr (JArr [])
         \<and> (check_auth cfg req = None \<longrightarrow>
              list_items cfg replit_db prefix req
                = \<lparr>result = Inr \<lparr>status = 200, body = JArr []\<rparr>,
                   db_after = replit_db, sent = []\<rparr>)"
  using assms
  by (simp add: db_get_def db_items_def list_items_def returns_def jsonify_def)

theorem never_written_lists_empty_witness:
  "db_sample ''moods'' = None
   \<and> check_auth cfg_dev (with_key ''habitcards-dev-key'' JNull) = None
   \<and> db_get cfg_dev db_sample ''moods'' (Doc (JArr [])) = Doc (JArr [])
   \<and> db_items cfg_dev db_sample ''moods'' = Inr (JArr [])
   \<and> list_items cfg_dev db_sample ''moods'' (with_key ''habitcards-dev-key'' JNull)
       = \<lparr>result = Inr \<lparr>status = 200, body = JArr []\<rparr>, db_after = db_sample, sent = []\<rparr>"
  using never_written_lists_empty [of db_sample "''moods''" cfg_dev
      "with_key ''habitcards-dev-key'' JNull"]
  by (simp add: db_sample_def check_auth_with_key API_KEY_dev)

subsection \<open>What the create view changes\<close>

text \<open>
  Claim C9. For a request with the right key whose body is a dict, on a collection whose
  stored text loads to a list, the create view answers 201 with the item it stored at the
  end of the collection. That item differs from the submitted dict in \<^verbatim>\<open>id\<close> and
  \<^verbatim>\<open>createdAt\<close> at most: every other field has the value the caller gave, an \<^verbatim>\<open>id\<close>
  the caller gave is kept, an \<^verbatim>\<open>id\<close> is generated only when there was none, and
  \<^verbatim>\<open>createdAt\<close> is the server's time whatever the caller gave. No field beyond these
  two is added.
\<close>

theorem create_item_frame:
  assumes "check_auth cfg req = None" and "body_json req = JObj kvs"
    and "db_items cfg replit_db prefix = Inr (JArr items)"
  shows "create_item cfg w replit_db prefix req =
           \<lparr>result = Inr \<lparr>status = 201, body = JObj (stamped w kvs)\<rparr>,
            db_after = db_set cfg replit_db prefix (json_dumps (JArr (items @ [JObj (stamped w kvs)]))),
            sent = []\<rparr>
         \<and> (\<forall>key. key \<noteq> ''id'' \<and> key \<noteq> ''createdAt'' \<longrightarrow>
               map_of (stamped w kvs) key = map_of kvs key)
         \<and> (''id'' \<in> fst ` set kvs \<longrightarrow> map_of (stamped w kvs) ''id'' = map_of kvs ''id'')
         \<and> (''id'' \<notin> fst ` set kvs \<longrightarrow>
               map_of (stamped w kvs) ''id'' = Some (JStr (str_uuid (uuid4 (urandom16 w)))))
         \<and> map_of (stamped w kvs) ''createdAt'' = Some (JStr (now_isoformat w))
         \<and> fst ` set (stamped w kvs) = fst ` set kvs \<union> {''id'', ''createdAt''}"
proof -
  have "map_of (stamped w kvs) =
          (if ''id'' \<in> fst ` set kvs then map_of kvs
           else (map_of kvs)(''id'' \<mapsto> JStr (str_uuid (uuid4 (urandom16 w)))))
          (''createdAt'' \<mapsto> JStr (now_isoformat w))"
    by (simp add: stamped_def update_conv')
  moreover have "fst ` set (stamped w kvs) = fst ` set kvs \<union> {''id'', ''createdAt''}"
    by (auto simp: stamped_def dom_update)
  ultimately show ?thesis
    using create_item_dict [OF assms, of w] by simp
qed

theorem create_item_frame_witness:
  "check_auth cfg_dev (with_key ''habitcards-dev-key''
       (JObj [(''id'', JStr ''mine''), (''createdAt'', JStr ''1999''), (''label'', JStr ''x'')])) = None
   \<and> db_items cfg_dev db_sample ''alarms'' = Inr (JArr alarms_sample)
   \<and> ''id'' \<in> fst ` set [(''id'', JStr ''mine''), (''createdAt'', JStr ''1999''), (''label'', JStr ''x'')]
   \<and> create_item cfg_dev world_none db_sample ''alarms''
        (with_key ''habitcards-dev-key''
           (JObj [(''id'', JStr ''mine''), (''createdAt'', JStr ''1999''), (''label'', JStr ''x'')]))
       = \<lparr>result = Inr \<lparr>status = 201,
             body = JObj [(''id'', JStr ''mine''), (''createdAt'', JStr ''2026-01-02T03:04:05.000006''),
                          (''label'', JStr ''x'')]\<rparr>,
          db_after = db_sample(''alarms'' \<mapsto> Doc (JArr (alarms_sample @
             [JObj [(''id'', JStr ''mine''), (''createdAt'', JStr ''2026-01-02T03:04:05.000006''),
                    (''label'', JStr ''x'')]]))),
          sent = []\<rparr>
   \<and> check_auth cfg_dev (with_key ''habitcards-dev-key'' (JObj [(''label'', JStr ''x'')])) = None
   \<and> ''id'' \<notin> fst ` set [(''label'', JStr ''x'')]
   \<and> result (create_item cfg_dev world_none db_sample ''alarms''
        (with_key ''habitcards-dev-key'' (JObj [(''label'', JStr ''x'')])))
       = Inr \<lparr>status = 201,
             body = JObj [(''label'', JStr ''x''),
                          (''id'', JStr ''00000000-0000-4000-8000-000000000000''),
                          (''createdAt'', JStr ''2026-01-02T03:04:05.000006'')]\<rparr>"
  using create_item_frame [of cfg_dev
          "with_key ''habitcards-dev-key''
             (JObj [(''id'', JStr ''mine''), (''createdAt'', JStr ''1999''), (''label'', JStr ''x'')])"
          "[(''id'', JStr ''mine''), (''createdAt'', JStr ''1999''), (''label'', JStr ''x'')]"
          db_sample "''alarms''" alarms_sample world_none]
        create_item_frame [of cfg_dev
          "with_key ''habitcards-dev-key'' (JObj [(''label'', JStr ''x'')])"
          "[(''label'', JStr ''x'')]" db_sample "''alarms''" alarms_sample world_none]
  by (simp add: check_auth_with_key API_KEY_dev db_items_sample body_json_with_key stamped_def
        world_none_def str_uuid_zero db_set_def json_dumps_def)

subsection \<open>Items without an id\<close>

text \<open>
  Claim C10. When the stored text of a collection loads to a list of dicts, \<open>db_delete\<close>
  keeps every item that has no \<^verbatim>\<open>id\<close> field, whatever id is given; and the get view,
  for a request with the right key, never returns such an item: it answers 404 when no
  item has the id of the path, and otherwise 200 with an item whose \<^verbatim>\<open>id\<close> is that
  string.
\<close>

theorem items_without_id_unreachable:
  assumes "db_items cfg replit_db prefix = Inr (JArr items)" and "list_all is_dict items"
  shows "db_delete cfg replit_db prefix item_id =
           Inr (db_set cfg replit_db prefix (json_dumps (JArr (without_id items item_id))))
         \<and> filter (\<lambda>i. \<not> has_field ''id'' i) (without_id items item_id)
             = filter (\<lambda>i. \<not> has_field ''id'' i) items
         \<and> (check_auth cfg req = None \<longrightarrow>
              (\<forall>i\<in>set items. \<not> has_field ''id'' i \<longrightarrow>
                 result (get_item cfg replit_db prefix item_id req) \<noteq> Inr (jsonify i))
              \<and> ((\<forall>i\<in>set items. \<not> id_is i item_id) \<longrightarrow>
                   get_item cfg replit_db prefix item_id req
                     = \<lparr>result = Inr \<lparr>status = 404, body = JObj [(''error'', JStr ''Not found'')]\<rparr>,
                        db_after = replit_db, sent = []\<rparr>)
              \<and> (\<forall>r. result (get_item cfg replit_db prefix item_id req) = Inr r \<and> status r \<noteq> 404 \<longrightarrow>
                    status r = 200 \<and> body r \<in> set items \<and> id_is (body r) item_id))"
proof -
  have del: "db_delete cfg replit_db prefix item_id =
           Inr (db_set cfg replit_db prefix (json_dumps (JArr (without_id items item_id))))"
    using assms by (rule db_delete_dicts)
  have get: "check_auth cfg req = None \<Longrightarrow>
      (\<forall>i\<in>set items. \<not> has_field ''id'' i \<longrightarrow>
                 result (get_item cfg replit_db prefix item_id req) \<noteq> Inr (jsonify i))
              \<and> ((\<forall>i\<in>set items. \<not> id_is i item_id) \<longrightarrow>
                   get_item cfg replit_db prefix item_id req
                     = \<lparr>result = Inr \<lparr>status = 404, body = JObj [(''error'', JStr ''Not found'')]\<rparr>,
                        db_after = replit_db, sent = []\<rparr>)
              \<and> (\<forall>r. result (get_item cfg replit_db prefix item_id req) = Inr r \<and> status r \<noteq> 404 \<longrightarrow>
                    status r = 200 \<and> body r \<in> set items \<and> id_is (body r) item_id)"
  proof -
    assume auth: "check_auth cfg req = None"
    note g = get_item_dicts [OF auth assms, of item_id]
    show ?thesis
    proof (cases "find (\<lambda>i. id_is i item_id) items")
      case None
      then have "\<forall>i\<in>set items. \<not> id_is i item_id"
        by (simp add: find_None_iff)
      with None g show ?thesis
        by (simp add: returns_def not_found_def with_status_def jsonify_def)
    next
      case (Some item)
      then have item: "id_is item item_id" "item \<in> set items"
        by (auto simp: find_Some_iff)
      then have "has_field ''id'' item"
        by (simp add: id_is_dict)
      with Some g item show ?thesis
        by (auto simp: returns_def jsonify_def)
    qed
  qed
  from del get show ?thesis
    by (simp only: without_id_keeps_no_id) blast
qed

theorem items_without_id_unreachable_witness:
  "db_items cfg_dev db_sample ''alarms'' = Inr (JArr alarms_sample)
   \<and> list_all is_dict alarms_sample
   \<and> check_auth cfg_dev (with_key ''habitcards-dev-key'' JNull) = None
   \<and> JObj [(''label'', JStr ''no id'')] \<in> set alarms_sample
   \<and> \<not> has_field ''id'' (JObj [(''label'', JStr ''no id'')])
   \<and> filter (\<lambda>i. \<not> has_field ''id'' i) (without_id alarms_sample ''a1'')
       = [JObj [(''label'', JStr ''no id'')]]
   \<and> result (get_item cfg_dev db_sample ''alarms'' ''a1'' (with_key ''habitcards-dev-key'' JNull))
       \<noteq> Inr (jsonify (JObj [(''label'', JStr ''no id'')]))
   \<and> list_all (\<lambda>i. \<not> id_is i ''zz'') alarms_sample
   \<and> get_item cfg_dev db_sample ''alarms'' ''zz'' (with_key ''habitcards-dev-key'' JNull)
       = \<lparr>result = Inr \<lparr>status = 404, body = JObj [(''error'', JStr ''Not found'')]\<rparr>,
          db_after = db_sample, sent = []\<rparr>"
  using items_without_id_unreachable [of cfg_dev db_sample "''alarms''" alarms_sample "''a1''"
          "with_key ''habitcards-dev-key'' JNull"]
        items_without_id_unreachable [of cfg_dev db_sample "''alarms''" alarms_sample "''zz''"
          "with_key ''habitcards-dev-key'' JNull"]
  by (simp add: db_items_sample check_auth_with_key API_KEY_dev alarms_sample_def
        without_id_def id_is_def)

end
